theory Spec2Isabelle
  imports Complex_Main
begin

section \<open>Python values and exceptions\<close>

text \<open>
  The program is one Python class, \<open>TimeLapseCamera\<close> (src/main-raspbi.py). Python integers
  are unbounded and are modelled as \<open>int\<close>: for a positive divisor Python's \<open>//\<close> and
  \<open>%\<close> are floor division and its non-negative remainder, which is what \<open>div\<close> and
  \<open>mod\<close> are on \<open>int\<close>. An exception that leaves a method is a value \<open>Inl e\<close> of
  the method's result.
\<close>

datatype exn =
    FileNotFoundError
  | FileExistsError
  | NotADirectoryError
  | ValueError
  | IndexError
  | KeyError
  | ZeroDivisionError
  | SystemExit

section \<open>The timestamp codec\<close>

text \<open>
  \<^verbatim>\<open>
  def map_time_255(self, elapsed_time):
      hours = elapsed_time % 86400 // 3600
      minutes = elapsed_time % 3600 // 60
      seconds = elapsed_time % 60
      return [hours * 10 + 4, minutes * 4 + 2 , seconds * 4 + 2]
  \<close>
  \<open>%\<close> and \<open>//\<close> have the same precedence and associate to the left.
\<close>

definition map_time_255 :: "int \<Rightarrow> int list" where
  "map_time_255 elapsed_time =
     (let hours = (elapsed_time mod 86400) div 3600;
          minutes = (elapsed_time mod 3600) div 60;
          seconds = elapsed_time mod 60
      in [hours * 10 + 4, minutes * 4 + 2, seconds * 4 + 2])"

text \<open>
  \<^verbatim>\<open>
  def map_255_time(self, stats):
      return [stats[0] // 10, stats[1] // 4, stats[2] // 4]
  \<close>
  A sequence with fewer than three elements makes one of the three subscripts raise
  IndexError.
\<close>

fun map_255_time :: "int list \<Rightarrow> exn + int list" where
  "map_255_time (h # m # s # rest) = Inr [h div 10, m div 4, s div 4]"
| "map_255_time stats = Inl IndexError"

section \<open>Strings, text files and number conversions\<close>

text \<open>
  A Python \<open>str\<close> is modelled as a \<open>string\<close> whose characters are the code points below
  256. In that range the characters that \<open>str.strip()\<close> removes are U+0009 to U+000D,
  U+001C to U+0020, U+0085 and U+00A0, and the only decimal digits are \<open>0\<close> to \<open>9\<close>.
  The log file is opened in text mode: its content is modelled as the text written, and
  reading translates \<open>\r\n\<close> and a lone \<open>\r\<close> to \<open>\n\<close> (universal newlines).
\<close>

definition is_space :: "char \<Rightarrow> bool" where
  "is_space c \<longleftrightarrow> c \<in> set [CHR 0x09, CHR 0x0A, CHR 0x0B, CHR 0x0C, CHR 0x0D,
                            CHR 0x1C, CHR 0x1D, CHR 0x1E, CHR 0x1F, CHR 0x20,
                            CHR 0x85, CHR 0xA0]"

definition strip :: "string \<Rightarrow> string" where
  "strip s = rev (dropWhile is_space (rev (dropWhile is_space s)))"

fun universal_newlines :: "string \<Rightarrow> string" where
  "universal_newlines [] = []"
| "universal_newlines [c] = (if c = CHR 0x0D then [CHR 0x0A] else [c])"
| "universal_newlines (c # d # cs) =
     (if c = CHR 0x0D \<and> d = CHR 0x0A then CHR 0x0A # universal_newlines cs
      else if c = CHR 0x0D then CHR 0x0A # universal_newlines (d # cs)
      else c # universal_newlines (d # cs))"

text \<open>
  \<open>readline\<close> returns the text up to and including the next \<open>\n\<close> (all that is left when
  there is none, the empty string at the end of the file) and the rest of the file.
\<close>

fun readline :: "string \<Rightarrow> string \<times> string" where
  "readline [] = ([], [])"
| "readline (c # cs) =
     (if c = CHR 0x0A then ([c], cs)
      else (case readline cs of (line, rest) \<Rightarrow> (c # line, rest)))"

definition is_digit :: "char \<Rightarrow> bool" where
  "is_digit c \<longleftrightarrow> 48 \<le> (of_char c :: nat) \<and> (of_char c :: nat) \<le> 57"

definition digit_val :: "char \<Rightarrow> int" where
  "digit_val c = int (of_char c) - 48"

text \<open>
  \<open>int(s)\<close> for a string \<open>s\<close> that \<open>strip()\<close> has returned: an optional sign, then decimal
  digits, where single underscores may stand between two digits; anything else raises
  ValueError. (\<open>int\<close> ignores surrounding whitespace itself; the source strips it before
  the call. The language has no bound on the number of digits; the conversion limit that
  recent CPython versions add by default, 4300 digits, is not modelled.)
\<close>

fun parse_digits :: "int \<Rightarrow> string \<Rightarrow> exn + int" where
  "parse_digits acc [] = Inr acc"
| "parse_digits acc [c] = (if is_digit c then Inr (acc * 10 + digit_val c) else Inl ValueError)"
| "parse_digits acc (c # d # cs) =
     (if is_digit c then parse_digits (acc * 10 + digit_val c) (d # cs)
      else if c = CHR ''_'' \<and> is_digit d then parse_digits (acc * 10 + digit_val d) cs
      else Inl ValueError)"


definition parse_unsigned :: "string \<Rightarrow> exn + int" where
  "parse_unsigned s =
     (case s of
        [] \<Rightarrow> Inl ValueError
      | c # cs \<Rightarrow> if is_digit c then parse_digits (digit_val c) cs else Inl ValueError)"

definition py_int :: "string \<Rightarrow> exn + int" where
  "py_int s =
     (case s of
        [] \<Rightarrow> Inl ValueError
      | c # cs \<Rightarrow>
          if c = CHR ''-'' then (case parse_unsigned cs of Inl e \<Rightarrow> Inl e | Inr n \<Rightarrow> Inr (- n))
          else if c = CHR ''+'' then parse_unsigned cs
          else parse_unsigned s)"

text \<open>\<open>str(n)\<close> of an integer, as the f-string of \<open>write_log_file\<close> formats it.\<close>

definition digit_char :: "nat \<Rightarrow> char" where
  "digit_char d = ''0123456789'' ! d"

fun str_nat :: "nat \<Rightarrow> string" where
  "str_nat n = (if n < 10 then [digit_char n] else str_nat (n div 10) @ [digit_char (n mod 10)])"

declare str_nat.simps [simp del]

definition py_str :: "int \<Rightarrow> string" where
  "py_str i = (if i < 0 then CHR ''-'' # str_nat (nat (- i)) else str_nat (nat i))"

text \<open>\<open>int(x)\<close> of a float truncates towards zero.\<close>

definition py_trunc :: "real \<Rightarrow> int" where
  "py_trunc x = (if 0 \<le> x then \<lfloor>x\<rfloor> else \<lceil>x\<rceil>)"

text \<open>Subscripting a list: negative indices count from the end.\<close>

definition py_index :: "'a list \<Rightarrow> int \<Rightarrow> exn + 'a" where
  "py_index xs i =
     (let n = int (length xs)
      in if 0 \<le> i \<and> i < n then Inr (xs ! nat i)
         else if - n \<le> i \<and> i < 0 then Inr (xs ! nat (n + i))
         else Inl IndexError)"

text \<open>\<open>a % b\<close>: the remainder has the sign of the divisor, as \<open>mod\<close> on \<open>int\<close> has.\<close>

definition py_mod :: "int \<Rightarrow> int \<Rightarrow> exn + int" where
  "py_mod a b = (if b = 0 then Inl ZeroDivisionError else Inr (a mod b))"

text \<open>\<open>xs.index(x)\<close>: the position of the first occurrence, ValueError when there is none.\<close>

fun list_index :: "'a list \<Rightarrow> 'a \<Rightarrow> exn + int" where
  "list_index [] x = Inl ValueError"
| "list_index (y # ys) x =
     (if y = x then Inr 0
      else (case list_index ys x of Inl e \<Rightarrow> Inl e | Inr i \<Rightarrow> Inr (i + 1)))"

section \<open>The camera object and the files it works on\<close>

text \<open>
  The fields of a \<open>TimeLapseCamera\<close> that the methods below read or write. \<open>cap\<close> tells
  whether \<open>self.cap\<close> holds a capture object (\<open>None\<close> is \<open>False\<close>); \<open>key\<close> is \<open>None\<close>
  or the key code that \<open>cv2.waitKey\<close> returned. Times are the values of \<open>time.time()\<close>,
  taken as real numbers: the rounding of float arithmetic is not modelled.
\<close>

record camera =
  cap :: bool
  active_project :: string
  selected_project :: string
  selected_project_index :: int
  img_capture_index :: int
  img_max_index :: int
  img_shown_index :: int
  key :: "int option"
  playback_speed :: int
  playback_speed_index :: int
  projects :: "string list"
  projects_dict :: "string \<rightharpoonup> int"
  program_start_time :: real
  last_picture_time :: real

definition CAPTURE_INTERVAL :: int where
  "CAPTURE_INTERVAL = 5"

definition DEFAULT_PLAYBACK_SPEED :: int where
  "DEFAULT_PLAYBACK_SPEED = 1"

definition DEFAULT_PROJECT :: string where
  "DEFAULT_PROJECT = ''default''"

definition PLAYBACK_SPEEDS :: "int list" where
  "PLAYBACK_SPEEDS = [16, 32, 64, 128, 256]"

definition img_file_prefix :: string where
  "img_file_prefix = ''image_''"

text \<open>
  \<open>__init__\<close>, where \<open>now\<close> is what \<open>time.time()\<close> returns there. (The GPIO set-up and
  the keyboard controller have no part in what follows.)
\<close>

definition init :: "real \<Rightarrow> camera" where
  "init now =
     \<lparr>cap = False, active_project = [], selected_project = [],
      selected_project_index = 0, img_capture_index = 0, img_max_index = 0,
      img_shown_index = 1, key = None, playback_speed = DEFAULT_PLAYBACK_SPEED,
      playback_speed_index = 0, projects = [], projects_dict = Map.empty,
      program_start_time = now, last_picture_time = now - real_of_int CAPTURE_INTERVAL\<rparr>"

text \<open>
  The files: \<open>log.txt\<close> (absent, or its text) and the folder \<open>projects\<close> (absent, or its
  entries in the order in which \<open>os.listdir\<close> returns them). An entry of \<open>projects\<close> is a
  project directory or something else; an entry of a project directory is a regular
  file or something else. Of a frame only the pixel at \<open>PIXEL_LOCATION\<close> is kept.
  Project names are single path components.
\<close>

type_synonym frame = "int list"

datatype entry = RegularFile frame | OtherEntry

datatype folder_entry = ProjectDir "(string \<times> entry) list" | NotADir

record filesystem =
  log_txt :: "string option"
  projects_folder :: "(string \<times> folder_entry) list option"

fun is_regular :: "entry \<Rightarrow> bool" where
  "is_regular (RegularFile f) = True"
| "is_regular OtherEntry = False"

fun is_project_dir :: "folder_entry \<Rightarrow> bool" where
  "is_project_dir (ProjectDir es) = True"
| "is_project_dir NotADir = False"

text \<open>
  Two readings of the files: the entries of a project directory, and the number of its
  regular files as \<open>get_projects\<close> counts them.
\<close>

definition project_entries :: "filesystem \<Rightarrow> string \<Rightarrow> (string \<times> entry) list option" where
  "project_entries fs project =
     (case projects_folder fs of
        None \<Rightarrow> None
      | Some folder \<Rightarrow>
          (case map_of folder project of
             None \<Rightarrow> None
           | Some NotADir \<Rightarrow> None
           | Some (ProjectDir es) \<Rightarrow> Some es))"

definition number_of_files :: "(string \<times> entry) list \<Rightarrow> int" where
  "number_of_files es = int (length (filter is_regular (map snd es)))"

section \<open>The session record\<close>

text \<open>
  \<^verbatim>\<open>
  def write_log_file(self):
      with open(self.LOG_PATH, "w") as log_file:
          log_file.write(f"{self.active_project}
{self.img_capture_index}
{self.program_start_time}")
  \<close>
  How Python prints a float and how \<open>float()\<close> reads one are not part of this program:
  they are the parameters \<open>repr_float\<close> and \<open>py_float\<close> (\<open>None\<close> where \<open>float()\<close> raises
  ValueError) of the methods that need them.
\<close>

definition log_text :: "(real \<Rightarrow> string) \<Rightarrow> camera \<Rightarrow> string" where
  "log_text repr_float s =
     active_project s @ [CHR 0x0A] @ py_str (img_capture_index s) @ [CHR 0x0A]
       @ repr_float (program_start_time s)"

definition write_log_file :: "(real \<Rightarrow> string) \<Rightarrow> camera \<Rightarrow> filesystem \<Rightarrow> filesystem" where
  "write_log_file repr_float s fs = fs\<lparr>log_txt := Some (log_text repr_float s)\<rparr>"

text \<open>
  \<^verbatim>\<open>
  def read_log_file(self):
      try:
          with open(self.LOG_PATH, "r") as log_file:
              self.active_project = log_file.readline().strip()
              self.img_capture_index = int(log_file.readline().strip())
              self.program_start_time = float(log_file.readline().strip())
      except FileNotFoundError:
          print("Log file not found. Starting with default values.")
  \<close>
  Only FileNotFoundError is caught: the ValueError of \<open>int\<close> or \<open>float\<close> leaves the method.
\<close>

definition read_log_file :: "(string \<Rightarrow> real option) \<Rightarrow> filesystem \<Rightarrow> camera \<Rightarrow> exn + camera" where
  "read_log_file py_float fs s =
     (case log_txt fs of
        None \<Rightarrow> Inr s
      | Some content \<Rightarrow>
          (case readline (universal_newlines content) of (line1, rest1) \<Rightarrow>
           case readline rest1 of (line2, rest2) \<Rightarrow>
           case readline rest2 of (line3, rest3) \<Rightarrow>
             (case py_int (strip line2) of
                Inl e \<Rightarrow> Inl e
              | Inr n \<Rightarrow>
                  (case py_float (strip line3) of
                     None \<Rightarrow> Inl ValueError
                   | Some t \<Rightarrow>
                       Inr (s\<lparr>active_project := strip line1, img_capture_index := n,
                              program_start_time := t\<rparr>)))))"

section \<open>The project catalog\<close>

text \<open>\<open>os.makedirs(path, exist_ok=True)\<close> for the folder \<open>projects\<close>.\<close>

definition ensure_projects_folder :: "filesystem \<Rightarrow> filesystem" where
  "ensure_projects_folder fs =
     (case projects_folder fs of
        None \<Rightarrow> fs\<lparr>projects_folder := Some []\<rparr>
      | Some folder \<Rightarrow> fs)"

text \<open>
  \<open>os.makedirs(path, exist_ok=True)\<close> for a project directory inside \<open>projects\<close>: nothing
  to do when the directory is there, FileExistsError when the name is taken by something
  that is not a directory.
\<close>

definition ensure_project_dir :: "string \<Rightarrow> (string \<times> folder_entry) list \<Rightarrow> exn + (string \<times> folder_entry) list" where
  "ensure_project_dir name folder =
     (case map_of folder name of
        None \<Rightarrow> Inr (folder @ [(name, ProjectDir [])])
      | Some (ProjectDir es) \<Rightarrow> Inr folder
      | Some NotADir \<Rightarrow> Inl FileExistsError)"

text \<open>
  The loop of \<open>get_projects\<close> that counts the regular files of each project:
  \<^verbatim>\<open>
  for project in projects_list:
      dir_path = os.path.join(self.PROJECTS_FOLDER, project)
      number_of_files = len([entry for entry in os.listdir(dir_path) if os.path.isfile(os.path.join(dir_path, entry))])
      self.projects_dict[project] = number_of_files
  \<close>
\<close>

fun count_files :: "(string \<times> folder_entry) list \<Rightarrow> string list \<Rightarrow> (string \<rightharpoonup> int) \<Rightarrow> exn + (string \<rightharpoonup> int)" where
  "count_files folder [] d = Inr d"
| "count_files folder (project # rest) d =
     (case map_of folder project of
        None \<Rightarrow> Inl FileNotFoundError
      | Some NotADir \<Rightarrow> Inl NotADirectoryError
      | Some (ProjectDir es) \<Rightarrow>
          count_files folder rest (d(project \<mapsto> int (length (filter is_regular (map snd es))))))"

text \<open>
  \<^verbatim>\<open>
  def get_projects(self):
      projects_list = [d for d in os.listdir(self.PROJECTS_FOLDER) if os.path.isdir(os.path.join(self.PROJECTS_FOLDER, d))]
      if not projects_list:
          projects_list.append(self.DEFAULT_PROJECT)
          self.ensure_directory_exists(os.path.join(self.PROJECTS_FOLDER, self.DEFAULT_PROJECT))
      for project in projects_list: ...
      self.projects = projects_list
  \<close>
\<close>

definition get_projects :: "filesystem \<Rightarrow> camera \<Rightarrow> exn + camera \<times> filesystem" where
  "get_projects fs s =
     (case projects_folder fs of
        None \<Rightarrow> Inl FileNotFoundError
      | Some folder \<Rightarrow>
          (let listed = map fst (filter (\<lambda>(name, e). is_project_dir e) folder)
           in case (if listed = []
                    then (case ensure_project_dir DEFAULT_PROJECT folder of
                            Inl e \<Rightarrow> Inl e
                          | Inr folder' \<Rightarrow> Inr ([DEFAULT_PROJECT], folder'))
                    else Inr (listed, folder)) of
                Inl e \<Rightarrow> Inl e
              | Inr (projects_list, folder') \<Rightarrow>
                  (case count_files folder' projects_list (projects_dict s) of
                     Inl e \<Rightarrow> Inl e
                   | Inr d \<Rightarrow>
                       Inr (s\<lparr>projects_dict := d, projects := projects_list\<rparr>,
                            fs\<lparr>projects_folder := Some folder'\<rparr>))))"

text \<open>
  \<^verbatim>\<open>
  def is_directory_empty(self, path):
      return next(os.scandir(path), None) is None
  \<close>
  Any entry counts, not only regular files.
\<close>

definition is_directory_empty :: "filesystem \<Rightarrow> string \<Rightarrow> exn + bool" where
  "is_directory_empty fs project =
     (case projects_folder fs of
        None \<Rightarrow> Inl FileNotFoundError
      | Some folder \<Rightarrow>
          (case map_of folder project of
             None \<Rightarrow> Inl FileNotFoundError
           | Some NotADir \<Rightarrow> Inl NotADirectoryError
           | Some (ProjectDir es) \<Rightarrow> Inr (es = [])))"

text \<open>
  \<^verbatim>\<open>
  def select_project(self):
      for project in self.projects:
          if self.is_directory_empty(os.path.join(self.PROJECTS_FOLDER, project)):
              self.active_project = project
              self.program_start_time = time.time()
              self.img_capture_index = 0
              self.write_log_file()
              return
      if self.active_project in self.projects:
          return
      self.active_project = self.DEFAULT_PROJECT
      self.write_log_file()
  \<close>
  \<open>select_from\<close> is the loop over what is left of \<open>self.projects\<close>, followed by the code
  after the loop; \<open>now\<close> is what \<open>time.time()\<close> returns.
\<close>

fun select_from :: "(real \<Rightarrow> string) \<Rightarrow> real \<Rightarrow> string list \<Rightarrow> filesystem \<Rightarrow> camera \<Rightarrow> exn + camera \<times> filesystem" where
  "select_from repr_float now [] fs s =
     (if active_project s \<in> set (projects s) then Inr (s, fs)
      else (let s' = s\<lparr>active_project := DEFAULT_PROJECT\<rparr>
            in Inr (s', write_log_file repr_float s' fs)))"
| "select_from repr_float now (project # rest) fs s =
     (case is_directory_empty fs project of
        Inl e \<Rightarrow> Inl e
      | Inr vacant \<Rightarrow>
          if vacant
          then (let s' = s\<lparr>active_project := project, program_start_time := now,
                            img_capture_index := 0\<rparr>
                in Inr (s', write_log_file repr_float s' fs))
          else select_from repr_float now rest fs s)"

definition select_project :: "(real \<Rightarrow> string) \<Rightarrow> real \<Rightarrow> filesystem \<Rightarrow> camera \<Rightarrow> exn + camera \<times> filesystem" where
  "select_project repr_float now fs s = select_from repr_float now (projects s) fs s"

text \<open>
  \<^verbatim>\<open>
  def setup_project(self):
      self.read_log_file()
      self.ensure_directory_exists(self.PROJECTS_FOLDER)
      self.get_projects()
      self.select_project()
      self.selected_project = self.active_project
      self.selected_project_index = self.projects.index(self.selected_project)
  \<close>
\<close>

definition setup_project :: "(real \<Rightarrow> string) \<Rightarrow> (string \<Rightarrow> real option) \<Rightarrow> real \<Rightarrow> filesystem \<Rightarrow> camera \<Rightarrow> exn + camera \<times> filesystem" where
  "setup_project repr_float py_float now fs s =
     (case read_log_file py_float fs s of
        Inl e \<Rightarrow> Inl e
      | Inr s1 \<Rightarrow>
          (case get_projects (ensure_projects_folder fs) s1 of
             Inl e \<Rightarrow> Inl e
           | Inr (s2, fs2) \<Rightarrow>
               (case select_project repr_float now fs2 s2 of
                  Inl e \<Rightarrow> Inl e
                | Inr (s3, fs3) \<Rightarrow>
                    (let s4 = s3\<lparr>selected_project := active_project s3\<rparr>
                     in case list_index (projects s4) (selected_project s4) of
                          Inl e \<Rightarrow> Inl e
                        | Inr i \<Rightarrow> Inr (s4\<lparr>selected_project_index := i\<rparr>, fs3)))))"

section \<open>Capturing\<close>

text \<open>
  \<^verbatim>\<open>
  def add_timestamp_to_image(self, frame):
      elapsed_time = int(time.time() - self.program_start_time)
      stats = self.map_time_255(elapsed_time)
      frame[...] = (stats[0], stats[1], stats[2])
      return frame
  \<close>
  The patch around \<open>PIXEL_LOCATION\<close> is overwritten with the encoded elapsed time.
\<close>

definition add_timestamp_to_image :: "real \<Rightarrow> camera \<Rightarrow> frame \<Rightarrow> frame" where
  "add_timestamp_to_image now s fr =
     (let elapsed_time = py_trunc (now - program_start_time s);
          stats = map_time_255 elapsed_time
      in stats)"

text \<open>
  \<open>cv2.imwrite(filename, frame)\<close> for the file \<open>name\<close> in the directory of \<open>project\<close>:
  the file is created or overwritten; where the directory is missing, or the name is taken
  by something that is not a regular file, nothing is written and nothing is raised.
\<close>

fun put_file :: "string \<Rightarrow> frame \<Rightarrow> (string \<times> entry) list \<Rightarrow> (string \<times> entry) list" where
  "put_file name fr [] = [(name, RegularFile fr)]"
| "put_file name fr ((n, e) # es) =
     (if n = name then (if is_regular e then (n, RegularFile fr) # es else (n, e) # es)
      else (n, e) # put_file name fr es)"

fun imwrite :: "string \<Rightarrow> string \<Rightarrow> frame \<Rightarrow> (string \<times> folder_entry) list \<Rightarrow> (string \<times> folder_entry) list" where
  "imwrite project name fr [] = []"
| "imwrite project name fr ((p, ProjectDir es) # rest) =
     (if p = project then (p, ProjectDir (put_file name fr es)) # rest
      else (p, ProjectDir es) # imwrite project name fr rest)"
| "imwrite project name fr ((p, NotADir) # rest) =
     (if p = project then (p, NotADir) # rest
      else (p, NotADir) # imwrite project name fr rest)"

definition save_image_with_timestamp :: "real \<Rightarrow> camera \<Rightarrow> frame \<Rightarrow> string \<Rightarrow> string \<Rightarrow> filesystem \<Rightarrow> filesystem" where
  "save_image_with_timestamp now s fr project name fs =
     (case projects_folder fs of
        None \<Rightarrow> fs
      | Some folder \<Rightarrow>
          fs\<lparr>projects_folder :=
                Some (imwrite project name (add_timestamp_to_image now s fr) folder)\<rparr>)"

definition img_name :: "int \<Rightarrow> string" where
  "img_name i = img_file_prefix @ py_str i @ ''.jpg''"

text \<open>
  \<^verbatim>\<open>
  def capture_image(self):
      if not self.cap:
          print("Camera not initialized.")
          return
      ret, frame = self.cap.read()
      if ret:
          img_path = os.path.join(self.PROJECTS_FOLDER, self.active_project, f"{self.img_file_prefix}{self.img_capture_index}.jpg")
          self.save_image_with_timestamp(frame, img_path)
          self.last_picture_time = time.time()
          if self.selected_project == self.active_project:
              self.img_max_index = self.img_capture_index
          self.img_capture_index += 1
          self.write_log_file()
  \<close>
  \<open>grabbed\<close> is what \<open>self.cap.read()\<close> returns: \<open>None\<close> when \<open>ret\<close> is false, the frame
  otherwise. \<open>t_stamp\<close> and \<open>t_saved\<close> are the two readings of \<open>time.time()\<close>.
\<close>

definition capture_image :: "(real \<Rightarrow> string) \<Rightarrow> frame option \<Rightarrow> real \<Rightarrow> real \<Rightarrow> camera \<times> filesystem \<Rightarrow> camera \<times> filesystem" where
  "capture_image repr_float grabbed t_stamp t_saved sf =
     (case sf of (s, fs) \<Rightarrow>
        if \<not> cap s then (s, fs)
        else (case grabbed of
                None \<Rightarrow> (s, fs)
              | Some fr \<Rightarrow>
                  (let fs1 = save_image_with_timestamp t_stamp s fr (active_project s)
                               (img_name (img_capture_index s)) fs;
                       s1 = s\<lparr>last_picture_time := t_saved\<rparr>;
                       s2 = (if selected_project s1 = active_project s1
                             then s1\<lparr>img_max_index := img_capture_index s1\<rparr> else s1);
                       s3 = s2\<lparr>img_capture_index := img_capture_index s2 + 1\<rparr>
                   in (s3, write_log_file repr_float s3 fs1))))"

section \<open>Playback\<close>

text \<open>
  \<^verbatim>\<open>
  def play_movie(self):
      if self.img_max_index:
          self.img_shown_index = (self.img_shown_index + (1 if self.playback_speed > 0 else -1)) % self.img_max_index
      else:
          self.img_shown_index = 0
      self.update_display(self.img_shown_index)
      self.key = cv2.waitKey(int(1000 * self.CAPTURE_INTERVAL / abs(self.playback_speed)))
  \<close>
  \<open>update_display\<close> draws and changes neither the object nor the files. The delay handed
  to \<open>cv2.waitKey\<close> is a quotient by \<open>abs(self.playback_speed)\<close>, which raises
  ZeroDivisionError for the speed 0. \<open>pressed\<close> is the key code that \<open>cv2.waitKey\<close> returns.
\<close>

definition play_movie :: "int \<Rightarrow> camera \<Rightarrow> exn + camera" where
  "play_movie pressed s =
     (case (if img_max_index s \<noteq> 0
            then py_mod (img_shown_index s + (if playback_speed s > 0 then 1 else - 1))
                   (img_max_index s)
            else Inr 0) of
        Inl e \<Rightarrow> Inl e
      | Inr i \<Rightarrow>
          (let s1 = s\<lparr>img_shown_index := i\<rparr>
           in if \<bar>playback_speed s1\<bar> = 0 then Inl ZeroDivisionError
              else Inr (s1\<lparr>key := Some pressed\<rparr>)))"

text \<open>
  The two branches of \<open>handle_key_press\<close> that select a project, for \<open>step = 1\<close> (key
  \<open>s\<close>) and \<open>step = -1\<close> (key \<open>a\<close>):
  \<^verbatim>\<open>
  self.selected_project_index = (self.selected_project_index + 1) % len(self.projects)
  self.selected_project = self.projects[self.selected_project_index]
  self.img_shown_index = 1
  self.img_max_index = self.projects_dict[self.selected_project]
  \<close>
\<close>

definition select_step :: "int \<Rightarrow> camera \<Rightarrow> exn + camera" where
  "select_step step s =
     (case py_mod (selected_project_index s + step) (int (length (projects s))) of
        Inl e \<Rightarrow> Inl e
      | Inr i \<Rightarrow>
          (case py_index (projects s) i of
             Inl e \<Rightarrow> Inl e
           | Inr name \<Rightarrow>
               (case projects_dict s name of
                  None \<Rightarrow> Inl KeyError
                | Some n \<Rightarrow>
                    Inr (s\<lparr>selected_project_index := i, selected_project := name,
                           img_shown_index := 1, img_max_index := n\<rparr>))))"

text \<open>
  \<^verbatim>\<open>
  def handle_key_press(self):
      if self.key in [ord('f'), ord('b')]:
          self.playback_speed = self.PLAYBACK_SPEEDS[self.playback_speed_index] * (-1 if self.key == ord('b') else 1)
          self.playback_speed_index = (self.playback_speed_index + 1) % len(self.PLAYBACK_SPEEDS)
      elif self.key == ord('p'):
          if self.playback_speed > 0:
              self.playback_speed = self.DEFAULT_PLAYBACK_SPEED
          else:
              self.playback_speed = -1* self.DEFAULT_PLAYBACK_SPEED
      elif self.key == ord('s'): ...
      elif self.key == ord('a'): ...
      elif self.key == ord('q'):
          return False
      return True
  \<close>
  The key codes are \<open>ord('f') = 102\<close>, \<open>ord('b') = 98\<close>, \<open>ord('p') = 112\<close>,
  \<open>ord('s') = 115\<close>, \<open>ord('a') = 97\<close> and \<open>ord('q') = 113\<close>.
\<close>

definition handle_key_press :: "camera \<Rightarrow> exn + camera \<times> bool" where
  "handle_key_press s =
     (if key s = Some 102 \<or> key s = Some 98 then
        (case py_index PLAYBACK_SPEEDS (playback_speed_index s) of
           Inl e \<Rightarrow> Inl e
         | Inr magnitude \<Rightarrow>
             (let s1 = s\<lparr>playback_speed := magnitude * (if key s = Some 98 then - 1 else 1)\<rparr>;
                  s2 = s1\<lparr>playback_speed_index :=
                            (playback_speed_index s1 + 1) mod int (length PLAYBACK_SPEEDS)\<rparr>
              in Inr (s2, True)))
      else if key s = Some 112 then
        (if playback_speed s > 0
         then Inr (s\<lparr>playback_speed := DEFAULT_PLAYBACK_SPEED\<rparr>, True)
         else Inr (s\<lparr>playback_speed := - 1 * DEFAULT_PLAYBACK_SPEED\<rparr>, True))
      else if key s = Some 115 then
        (case select_step 1 s of Inl e \<Rightarrow> Inl e | Inr s' \<Rightarrow> Inr (s', True))
      else if key s = Some 97 then
        (case select_step (- 1) s of Inl e \<Rightarrow> Inl e | Inr s' \<Rightarrow> Inr (s', True))
      else if key s = Some 113 then Inr (s, False)
      else Inr (s, True))"

section \<open>The main loop\<close>

text \<open>
  What one pass of the loop takes from outside: the reading of \<open>time.time()\<close> in the test
  of the loop, what the camera returns, the two readings of \<open>time.time()\<close> in
  \<open>capture_image\<close>, and the key that \<open>cv2.waitKey\<close> returns.
\<close>

record tick =
  t_check :: real
  grabbed :: "frame option"
  t_stamp :: real
  t_saved :: real
  pressed :: int

definition capture_due :: "real \<Rightarrow> camera \<Rightarrow> bool" where
  "capture_due now s \<longleftrightarrow> now - last_picture_time s \<ge> real_of_int CAPTURE_INTERVAL"

text \<open>
  \<^verbatim>\<open>
  while True:
      if not self.handle_key_press():
          break
      if time.time() - self.last_picture_time >= self.CAPTURE_INTERVAL:
          self.capture_image()
      self.play_movie()
  \<close>
  One pass of the loop returns \<open>None\<close> when the loop is left.
\<close>

definition main_loop_pass :: "(real \<Rightarrow> string) \<Rightarrow> tick \<Rightarrow> camera \<times> filesystem \<Rightarrow> exn + (camera \<times> filesystem) option" where
  "main_loop_pass repr_float env sf =
     (case sf of (s, fs) \<Rightarrow>
        (case handle_key_press s of
           Inl e \<Rightarrow> Inl e
         | Inr (s1, continue) \<Rightarrow>
             if \<not> continue then Inr None
             else (case (if capture_due (t_check env) s1
                         then capture_image repr_float (grabbed env) (t_stamp env) (t_saved env) (s1, fs)
                         else (s1, fs)) of
                     (s2, fs2) \<Rightarrow>
                       (case play_movie (pressed env) s2 of
                          Inl e \<Rightarrow> Inl e
                        | Inr s3 \<Rightarrow> Inr (Some (s3, fs2))))))"

text \<open>
  The loop run on a finite list of passes: the states after each completed pass, up to
  the pass in which the loop is left or an exception escapes.
\<close>

fun main_loop_states :: "(real \<Rightarrow> string) \<Rightarrow> tick list \<Rightarrow> camera \<times> filesystem \<Rightarrow> (camera \<times> filesystem) list" where
  "main_loop_states repr_float [] sf = []"
| "main_loop_states repr_float (env # envs) sf =
     (case main_loop_pass repr_float env sf of
        Inl e \<Rightarrow> []
      | Inr None \<Rightarrow> []
      | Inr (Some sf') \<Rightarrow> sf' # main_loop_states repr_float envs sf')"

text \<open>
  \<^verbatim>\<open>
  def initialize(self):
      if not self.initialize_camera():
          print("Failed to initialize camera. Exiting.")
          exit(1)
      self.setup_project()
      self.prepare_display()
  \<close>
  \<open>initialize_camera\<close> stores a capture object in \<open>self.cap\<close> and returns whether it is
  open (\<open>opened\<close>).
\<close>

definition initialize :: "(real \<Rightarrow> string) \<Rightarrow> (string \<Rightarrow> real option) \<Rightarrow> bool \<Rightarrow> real \<Rightarrow> filesystem \<Rightarrow> camera \<Rightarrow> exn + camera \<times> filesystem" where
  "initialize repr_float py_float opened now fs s =
     (let s1 = s\<lparr>cap := True\<rparr>
      in if \<not> opened then Inl SystemExit
         else setup_project repr_float py_float now fs s1)"

section \<open>Notions of the specification\<close>

text \<open>
  The invariant that the specification states for the playback state:
  \<open>0 <= shownIndex < maxIndex\<close> whenever \<open>maxIndex > 0\<close>, and \<open>shownIndex == 0\<close> when
  \<open>maxIndex == 0\<close>.
\<close>

definition playback_invariant :: "camera \<Rightarrow> bool" where
  "playback_invariant s \<longleftrightarrow>
     (img_max_index s > 0 \<longrightarrow> 0 \<le> img_shown_index s \<and> img_shown_index s < img_max_index s)
     \<and> (img_max_index s = 0 \<longrightarrow> img_shown_index s = 0)"

text \<open>
  A pass of the loop disturbs the playback range when it consumes a select-project key
  (\<open>s\<close> or \<open>a\<close>) or when its capture succeeds: the capture is due, there is a capture
  object and the camera returns a frame. A run is undisturbed when none of its passes is.
\<close>

definition disturbs :: "tick \<Rightarrow> camera \<Rightarrow> bool" where
  "disturbs env s \<longleftrightarrow>
     key s = Some 115 \<or> key s = Some 97
     \<or> (capture_due (t_check env) s \<and> cap s \<and> grabbed env \<noteq> None)"

fun undisturbed :: "(real \<Rightarrow> string) \<Rightarrow> tick list \<Rightarrow> camera \<times> filesystem \<Rightarrow> bool" where
  "undisturbed repr_float [] sf = True"
| "undisturbed repr_float (env # envs) sf =
     (\<not> disturbs env (fst sf)
      \<and> (case main_loop_pass repr_float env sf of
           Inl e \<Rightarrow> True
         | Inr None \<Rightarrow> True
         | Inr (Some sf') \<Rightarrow> undisturbed repr_float envs sf'))"

section \<open>Sample data\<close>

text \<open>
  For the examples the two parameters are instantiated with a fragment of Python's
  conversions: \<open>repr(1.5) = '1.5'\<close>, \<open>repr(0.0) = '0.0'\<close>, \<open>float('1.5') = 1.5\<close> and
  \<open>float('0.0') = 0.0\<close>. The examples use no other start time and no other time field
  that is a number.
\<close>

definition float_text :: "real \<Rightarrow> string" where
  "float_text t = (if t = 3 / 2 then ''1.5'' else ''0.0'')"

definition text_float :: "string \<Rightarrow> real option" where
  "text_float s = (if s = ''1.5'' then Some (3 / 2) else if s = ''0.0'' then Some 0 else None)"

text \<open>
  A folder \<open>projects\<close> with the project \<open>A\<close> holding two frames and the empty project
  \<open>B\<close>, and one where \<open>B\<close> holds a frame too.
\<close>

definition folder_A_B0 :: "(string \<times> folder_entry) list" where
  "folder_A_B0 =
     [(''A'', ProjectDir [(''image_0.jpg'', RegularFile [4, 2, 2]),
                          (''image_1.jpg'', RegularFile [4, 2, 22])]),
      (''B'', ProjectDir [])]"

definition folder_A_B1 :: "(string \<times> folder_entry) list" where
  "folder_A_B1 =
     [(''A'', ProjectDir [(''image_0.jpg'', RegularFile [4, 2, 2]),
                          (''image_1.jpg'', RegularFile [4, 2, 22])]),
      (''B'', ProjectDir [(''image_0.jpg'', RegularFile [4, 2, 2])])]"

text \<open>
  The files and the object after startup on them, and two passes of the loop: one in
  which the camera returns no frame and one in which it returns a frame.
\<close>

definition fs_sample :: filesystem where
  "fs_sample =
     \<lparr>log_txt = Some (''A'' @ [CHR 0x0A] @ ''2'' @ [CHR 0x0A] @ ''1.5''),
      projects_folder = Some folder_A_B1\<rparr>"

definition camera_sample :: camera where
  "camera_sample =
     \<lparr>cap = True, active_project = ''A'', selected_project = ''A'',
      selected_project_index = 0, img_capture_index = 2, img_max_index = 0,
      img_shown_index = 1, key = None, playback_speed = 1,
      playback_speed_index = 0, projects = [''A'', ''B''],
      projects_dict = [''A'' \<mapsto> 2, ''B'' \<mapsto> 1],
      program_start_time = 3 / 2, last_picture_time = 3715\<rparr>"

definition tick_failed :: tick where
  "tick_failed = \<lparr>t_check = 3721, grabbed = None, t_stamp = 3721, t_saved = 3721, pressed = - 1\<rparr>"

definition tick_frame :: tick where
  "tick_frame = \<lparr>t_check = 3725, grabbed = Some [0, 0, 0], t_stamp = 3725, t_saved = 3726, pressed = - 1\<rparr>"



section \<open>The sample data, evaluated\<close>

lemmas sample_defs = fs_sample_def camera_sample_def tick_failed_def tick_frame_def
  folder_A_B1_def folder_A_B0_def float_text_def text_float_def

lemmas eval_defs = init_def DEFAULT_PLAYBACK_SPEED_def CAPTURE_INTERVAL_def DEFAULT_PROJECT_def
  PLAYBACK_SPEEDS_def img_file_prefix_def img_name_def
  py_str_def str_nat.simps digit_char_def py_int_def parse_unsigned_def is_digit_def digit_val_def
  strip_def is_space_def py_trunc_def py_index_def py_mod_def
  log_text_def write_log_file_def read_log_file_def
  ensure_projects_folder_def ensure_project_dir_def get_projects_def is_directory_empty_def
  select_project_def setup_project_def initialize_def
  add_timestamp_to_image_def map_time_255_def save_image_with_timestamp_def capture_image_def
  play_movie_def select_step_def handle_key_press_def capture_due_def main_loop_pass_def
  disturbs_def playback_invariant_def project_entries_def number_of_files_def

lemma sample_start:
  "initialize float_text text_float True 3720 fs_sample (init 3720) = Inr (camera_sample, fs_sample)"
  by (simp add: sample_defs eval_defs)

lemma sample_failed_pass:
  "main_loop_pass float_text tick_failed (camera_sample, fs_sample)
     = Inr (Some (camera_sample\<lparr>img_shown_index := 0, key := Some (- 1)\<rparr>, fs_sample))"
  by (simp add: sample_defs eval_defs)

lemma sample_frame_pass:
  "main_loop_pass float_text tick_frame
       (camera_sample\<lparr>img_shown_index := 0, key := Some (- 1)\<rparr>, fs_sample)
     = Inr (Some (camera_sample\<lparr>img_shown_index := 1, key := Some (- 1), last_picture_time := 3726,
          img_max_index := 2, img_capture_index := 3\<rparr>,
        \<lparr>log_txt = Some (''A'' @ [CHR 0x0A] @ ''3'' @ [CHR 0x0A] @ ''1.5''),
         projects_folder = Some
          [(''A'', ProjectDir [(''image_0.jpg'', RegularFile [4, 2, 2]),
                               (''image_1.jpg'', RegularFile [4, 2, 22]),
                               (''image_2.jpg'', RegularFile [14, 10, 14])]),
           (''B'', ProjectDir [(''image_0.jpg'', RegularFile [4, 2, 2])])]\<rparr>))"
  by (simp add: sample_defs eval_defs)

section \<open>Properties of the codec\<close>

text \<open>
  Claim C1. For every elapsed time \<open>e\<close> with \<open>0 \<le> e < 86400\<close>, decoding the encoded triple
  gives back exactly \<open>[e // 3600, (e % 3600) // 60, e % 60]\<close>; and the elapsed time 3723
  is encoded as \<open>[14, 10, 14]\<close>, which decodes to \<open>[1, 2, 3]\<close>.
\<close>

theorem codec_exact:
  "(0 \<le> e \<and> e < 86400 \<longrightarrow>
      map_255_time (map_time_255 e) = Inr [e div 3600, (e mod 3600) div 60, e mod 60])
   \<and> map_time_255 3723 = [14, 10, 14]
   \<and> map_255_time [14, 10, 14] = Inr [1, 2, 3]"
proof (intro conjI impI)
  assume range: "0 \<le> e \<and> e < 86400"
  then have "(e mod 86400) div 3600 = e div 3600"
    by simp
  then show "map_255_time (map_time_255 e) = Inr [e div 3600, (e mod 3600) div 60, e mod 60]"
    by (simp add: map_time_255_def)
next
  show "map_time_255 3723 = [14, 10, 14]"
    by (simp add: map_time_255_def)
next
  show "map_255_time [14, 10, 14] = Inr [1, 2, 3]"
    by simp
qed

theorem codec_exact_witness:
  "(0::int) \<le> 3723 \<and> (3723::int) < 86400
   \<and> map_255_time (map_time_255 3723) = Inr [1, 2, 3]"
  using codec_exact [of 3723] by simp

lemma hour_channel: "4 \<le> (e mod 86400) div 3600 * 10 + 4 \<and> (e mod 86400) div 3600 * 10 + 4 \<le> 234"
  for e :: int
proof -
  have "0 \<le> e mod 86400" and "e mod 86400 < 86400"
    by simp_all
  then have "0 \<le> (e mod 86400) div 3600" and "(e mod 86400) div 3600 \<le> 23"
    by simp_all
  then show ?thesis
    by linarith
qed

lemma minute_channel: "2 \<le> (e mod 3600) div 60 * 4 + 2 \<and> (e mod 3600) div 60 * 4 + 2 \<le> 238"
  for e :: int
proof -
  have "0 \<le> e mod 3600" and "e mod 3600 < 3600"
    by simp_all
  then have "0 \<le> (e mod 3600) div 60" and "(e mod 3600) div 60 \<le> 59"
    by simp_all
  then show ?thesis
    by linarith
qed

lemma second_channel: "2 \<le> e mod 60 * 4 + 2 \<and> e mod 60 * 4 + 2 \<le> 238"
  for e :: int
proof -
  have "0 \<le> e mod 60" and "e mod 60 < 60"
    by simp_all
  then show ?thesis
    by linarith
qed

text \<open>
  Claim C8. For every non-negative elapsed time the encoder returns exactly three channel
  values, each of them between 2 and 238; so none is 0 and none is 255.
\<close>

theorem channels_in_range:
  assumes "0 \<le> e"
  shows "\<exists>h m s. map_time_255 e = [h, m, s]
           \<and> 2 \<le> h \<and> h \<le> 238 \<and> 2 \<le> m \<and> m \<le> 238 \<and> 2 \<le> s \<and> s \<le> 238
           \<and> h \<noteq> 0 \<and> m \<noteq> 0 \<and> s \<noteq> 0 \<and> h \<noteq> 255 \<and> m \<noteq> 255 \<and> s \<noteq> 255"
proof -
  define h where "h = (e mod 86400) div 3600 * 10 + 4"
  define m where "m = (e mod 3600) div 60 * 4 + 2"
  define s where "s = e mod 60 * 4 + 2"
  have enc: "map_time_255 e = [h, m, s]"
    by (simp add: map_time_255_def h_def m_def s_def)
  have "4 \<le> h \<and> h \<le> 234" "2 \<le> m \<and> m \<le> 238" "2 \<le> s \<and> s \<le> 238"
    unfolding h_def m_def s_def
    by (rule hour_channel, rule minute_channel, rule second_channel)
  with enc show ?thesis
    by auto
qed

theorem channels_in_range_witness:
  "(0::int) \<le> 86399 \<and> map_time_255 86399 = [234, 238, 238]
   \<and> (\<exists>h m s. map_time_255 86399 = [h, m, s] \<and> 2 \<le> h \<and> s \<le> 238)"
  using channels_in_range [of 86399] by (auto simp: map_time_255_def)

section \<open>Playback speed\<close>

lemma speeds_index: "0 \<le> i \<Longrightarrow> i < 5 \<Longrightarrow> py_index PLAYBACK_SPEEDS i = Inr (PLAYBACK_SPEEDS ! nat i)"
  by (simp add: py_index_def PLAYBACK_SPEEDS_def)

text \<open>
  Claim C6 as stated has the speed read at the rotated index. When the first key after
  startup is \<open>f\<close>, the index becomes 1 and the speed becomes 16, the entry at index 0;
  the entry at index 1 is 32.
\<close>

theorem speed_rotation_counterexample:
  "handle_key_press (camera_sample\<lparr>img_shown_index := 0, key := Some 102\<rparr>)
     = Inr (camera_sample\<lparr>img_shown_index := 0, key := Some 102, playback_speed := 16,
              playback_speed_index := 1\<rparr>, True)
   \<and> py_index PLAYBACK_SPEEDS 1 = Inr 32
   \<and> py_index PLAYBACK_SPEEDS
         (playback_speed_index (camera_sample\<lparr>img_shown_index := 0, key := Some 102,
            playback_speed := 16, playback_speed_index := 1\<rparr>))
       \<noteq> Inr (playback_speed (camera_sample\<lparr>img_shown_index := 0, key := Some 102,
            playback_speed := 16, playback_speed_index := 1\<rparr>))"
  by (simp add: handle_key_press_def camera_sample_def py_index_def PLAYBACK_SPEEDS_def)

text \<open>
  Claim C6, as amended. On an advance-forward event (key \<open>f\<close>) the speed is set to the
  entry of the speed table at the speed index as it is before the rotation, and then the
  index becomes \<open>(speedIndex + 1) mod 5\<close>; an advance-backward event (key \<open>b\<close>) does
  the same with the sign -1. The speed index is assumed to be an index of the table.
\<close>

theorem speed_before_rotation:
  assumes "0 \<le> playback_speed_index s" and "playback_speed_index s < 5"
  shows "(key s = Some 102 \<longrightarrow>
            handle_key_press s =
              Inr (s\<lparr>playback_speed := PLAYBACK_SPEEDS ! nat (playback_speed_index s) * 1,
                     playback_speed_index := (playback_speed_index s + 1) mod 5\<rparr>, True))
       \<and> (key s = Some 98 \<longrightarrow>
            handle_key_press s =
              Inr (s\<lparr>playback_speed := PLAYBACK_SPEEDS ! nat (playback_speed_index s) * (- 1),
                     playback_speed_index := (playback_speed_index s + 1) mod 5\<rparr>, True))"
proof -
  have len: "int (length PLAYBACK_SPEEDS) = 5"
    by (simp add: PLAYBACK_SPEEDS_def)
  show ?thesis
    using assms by (simp add: handle_key_press_def speeds_index len)
qed

theorem speed_before_rotation_witness:
  "0 \<le> playback_speed_index ((init 0)\<lparr>key := Some 98\<rparr>)
   \<and> playback_speed_index ((init 0)\<lparr>key := Some 98\<rparr>) < 5
   \<and> key ((init 0)\<lparr>key := Some 98\<rparr>) = Some 98
   \<and> handle_key_press ((init 0)\<lparr>key := Some 98\<rparr>) =
       Inr ((init 0)\<lparr>key := Some 98, playback_speed := - 16, playback_speed_index := 1\<rparr>, True)
   \<and> key ((init 0)\<lparr>key := Some 102, playback_speed_index := 4\<rparr>) = Some 102
   \<and> handle_key_press ((init 0)\<lparr>key := Some 102, playback_speed_index := 4\<rparr>) =
       Inr ((init 0)\<lparr>key := Some 102, playback_speed := 256, playback_speed_index := 0\<rparr>, True)"
  using speed_before_rotation [of "(init 0)\<lparr>key := Some 98\<rparr>"]
    speed_before_rotation [of "(init 0)\<lparr>key := Some 102, playback_speed_index := 4\<rparr>"]
  by (simp add: init_def PLAYBACK_SPEEDS_def)

section \<open>Playback index\<close>

lemma play_movie_returns:
  "playback_speed s \<noteq> 0 \<Longrightarrow> \<exists>s'. play_movie k s = Inr s'"
  by (simp add: play_movie_def py_mod_def Let_def)

lemma play_movie_invariant:
  assumes "play_movie k s = Inr s'"
  shows "playback_invariant s' \<and> img_max_index s' = img_max_index s"
proof (cases "img_max_index s = 0")
  case True
  with assms show ?thesis
    by (auto simp: play_movie_def playback_invariant_def Let_def split: if_splits)
next
  case False
  with assms have "img_max_index s' = img_max_index s"
    and "img_shown_index s' =
           (img_shown_index s + (if playback_speed s > 0 then 1 else - 1)) mod img_max_index s"
    by (auto simp: play_movie_def py_mod_def Let_def split: if_splits)
  with False show ?thesis
    by (simp add: playback_invariant_def)
qed

lemma speed_keys_keep_index:
  assumes "handle_key_press s = Inr (s', continue)"
    and "key s \<noteq> Some 115" and "key s \<noteq> Some 97"
  shows "img_shown_index s' = img_shown_index s \<and> img_max_index s' = img_max_index s"
  using assms
  by (auto simp: handle_key_press_def Let_def split: if_splits sum.splits)

lemma pass_invariant:
  assumes "main_loop_pass repr_float env (s, fs) = Inr (Some (s', fs'))"
  shows "playback_invariant s'"
proof -
  from assms obtain s2 where "play_movie (pressed env) s2 = Inr s'"
    by (auto simp: main_loop_pass_def split: sum.splits if_splits prod.splits)
  then show ?thesis
    by (simp add: play_movie_invariant)
qed

text \<open>
  Claim C3 as stated fails after initialization, where \<open>maxIndex\<close> is 0 and \<open>shownIndex\<close>
  is 1, and after a select-next-project event that selects a project with one frame,
  where both are 1.
\<close>

theorem playback_invariant_counterexample:
  "initialize float_text text_float True 3720 fs_sample (init 3720) = Inr (camera_sample, fs_sample)
   \<and> img_max_index camera_sample = 0 \<and> img_shown_index camera_sample = 1
   \<and> \<not> playback_invariant camera_sample
   \<and> handle_key_press (camera_sample\<lparr>img_shown_index := 0, key := Some 115\<rparr>)
       = Inr (camera_sample\<lparr>key := Some 115, selected_project_index := 1,
                selected_project := ''B'', img_shown_index := 1, img_max_index := 1\<rparr>, True)
   \<and> \<not> playback_invariant (camera_sample\<lparr>key := Some 115, selected_project_index := 1,
                selected_project := ''B'', img_shown_index := 1, img_max_index := 1\<rparr>)"
  by (simp add: sample_start)
    (simp add: playback_invariant_def camera_sample_def handle_key_press_def select_step_def
      py_mod_def py_index_def)

text \<open>
  Claim C3, as amended. The per-tick advance \<open>play_movie\<close> returns whenever the speed is
  not 0, with no division by \<open>maxIndex\<close> when that is 0, and the state it returns satisfies
  the invariant: \<open>0 <= shownIndex < maxIndex\<close> whenever \<open>maxIndex > 0\<close>, and
  \<open>shownIndex == 0\<close> when \<open>maxIndex == 0\<close>. So the invariant holds at the end of every
  pass of the main loop. The advance-forward, advance-backward and toggle-play-pause
  events (any key but \<open>s\<close> and \<open>a\<close>) change neither \<open>shownIndex\<close> nor \<open>maxIndex\<close>.
\<close>

theorem playback_invariant_after_advance:
  "(playback_speed s \<noteq> 0 \<longrightarrow> (\<exists>s'. play_movie k s = Inr s'))
   \<and> (play_movie k s = Inr s' \<longrightarrow> playback_invariant s')
   \<and> (main_loop_pass repr_float env (s, fs) = Inr (Some (s', fs')) \<longrightarrow> playback_invariant s')
   \<and> (handle_key_press s = Inr (s', continue) \<and> key s \<noteq> Some 115 \<and> key s \<noteq> Some 97 \<longrightarrow>
        img_shown_index s' = img_shown_index s \<and> img_max_index s' = img_max_index s)"
  using play_movie_returns [of s k] play_movie_invariant [of k s s']
    pass_invariant [of repr_float env s fs s' fs'] speed_keys_keep_index [of s s' continue]
  by blast

section \<open>What the key handler and the advance leave alone\<close>

lemma select_step_session:
  assumes "select_step step s = Inr s'"
  shows "cap s' = cap s \<and> active_project s' = active_project s
       \<and> img_capture_index s' = img_capture_index s
       \<and> program_start_time s' = program_start_time s
       \<and> last_picture_time s' = last_picture_time s
       \<and> playback_speed s' = playback_speed s"
  using assms
  by (auto simp: select_step_def split: sum.splits option.splits)

lemma handle_key_press_session:
  assumes "handle_key_press s = Inr (s', continue)"
  shows "cap s' = cap s \<and> active_project s' = active_project s
       \<and> img_capture_index s' = img_capture_index s
       \<and> program_start_time s' = program_start_time s
       \<and> last_picture_time s' = last_picture_time s"
proof (cases "key s = Some 115 \<or> key s = Some 97")
  case True
  with assms obtain step where "select_step step s = Inr s'"
    by (auto simp: handle_key_press_def split: if_splits sum.splits)
  then show ?thesis
    by (simp add: select_step_session)
next
  case False
  with assms show ?thesis
    by (auto simp: handle_key_press_def Let_def split: if_splits sum.splits)
qed

lemma play_movie_session:
  assumes "play_movie k s = Inr s'"
  shows "cap s' = cap s \<and> active_project s' = active_project s
       \<and> img_capture_index s' = img_capture_index s
       \<and> program_start_time s' = program_start_time s
       \<and> last_picture_time s' = last_picture_time s
       \<and> selected_project s' = selected_project s"
  using assms
  by (auto simp: play_movie_def Let_def split: if_splits sum.splits)

section \<open>A failed camera read\<close>

lemma capture_image_no_frame: "capture_image repr_float None t1 t2 (s, fs) = (s, fs)"
  by (simp add: capture_image_def)

lemma capture_image_frame:
  assumes "cap s"
  shows "capture_image repr_float (Some fr) t1 t2 (s, fs) = (s', fs') \<Longrightarrow>
           img_capture_index s' = img_capture_index s + 1
           \<and> (selected_project s = active_project s \<longrightarrow> img_max_index s' = img_capture_index s)
           \<and> (selected_project s \<noteq> active_project s \<longrightarrow> img_max_index s' = img_max_index s)
           \<and> last_picture_time s' = t2"
  using assms by (auto simp: capture_image_def Let_def)

lemma pass_parts:
  assumes "main_loop_pass repr_float env (s, fs) = Inr (Some (s', fs'))"
  obtains s1 s2 where "handle_key_press s = Inr (s1, True)"
    and "(s2, fs') = (if capture_due (t_check env) s1
                      then capture_image repr_float (grabbed env) (t_stamp env) (t_saved env) (s1, fs)
                      else (s1, fs))"
    and "play_movie (pressed env) s2 = Inr s'"
  using assms
  by (auto simp: main_loop_pass_def split: sum.splits if_splits prod.splits)

lemma pass_without_frame:
  assumes pass: "main_loop_pass repr_float env (s, fs) = Inr (Some (s', fs'))"
    and none: "grabbed env = None"
  shows "fs' = fs \<and> img_capture_index s' = img_capture_index s
       \<and> active_project s' = active_project s
       \<and> program_start_time s' = program_start_time s
       \<and> last_picture_time s' = last_picture_time s"
proof -
  from pass obtain s1 s2 where key: "handle_key_press s = Inr (s1, True)"
    and cap: "(s2, fs') = (if capture_due (t_check env) s1
                      then capture_image repr_float (grabbed env) (t_stamp env) (t_saved env) (s1, fs)
                      else (s1, fs))"
    and play: "play_movie (pressed env) s2 = Inr s'"
    by (rule pass_parts)
  from cap none have same: "s2 = s1" "fs' = fs"
    by (simp_all add: capture_image_no_frame split: if_splits)
  from handle_key_press_session [OF key] play_movie_session [OF play] same
  show ?thesis
    by simp
qed

lemma pass_with_frame:
  assumes pass: "main_loop_pass repr_float env (s, fs) = Inr (Some (s', fs'))"
    and due: "capture_due (t_check env) s" and cam: "cap s"
    and some: "grabbed env = Some fr"
  shows "img_capture_index s' = img_capture_index s + 1"
proof -
  from pass obtain s1 s2 where key: "handle_key_press s = Inr (s1, True)"
    and cap: "(s2, fs') = (if capture_due (t_check env) s1
                      then capture_image repr_float (grabbed env) (t_stamp env) (t_saved env) (s1, fs)
                      else (s1, fs))"
    and play: "play_movie (pressed env) s2 = Inr s'"
    by (rule pass_parts)
  from handle_key_press_session [OF key] due cam
  have due1: "capture_due (t_check env) s1" and cam1: "cap s1"
    and idx1: "img_capture_index s1 = img_capture_index s"
    by (simp_all add: capture_due_def)
  from cap due1 some
  have "capture_image repr_float (Some fr) (t_stamp env) (t_saved env) (s1, fs) = (s2, fs')"
    by simp
  from capture_image_frame [OF cam1 this] have "img_capture_index s2 = img_capture_index s1 + 1"
    by simp
  with idx1 play_movie_session [OF play] show ?thesis
    by simp
qed

text \<open>
  Claim C5. When the camera returns no frame, \<open>capture_image\<close> returns the object and the
  files as they were. A pass of the main loop in which the camera returns no frame leaves
  the files (the session record and the frames), the capture index, the active project,
  the session start time and the time of the last picture unchanged; if the capture was
  due in that pass it is due again in every later pass, and a later pass in which it is
  due and the camera returns a frame increments the capture index.
\<close>

theorem failed_read_skips_capture:
  "capture_image repr_float None t1 t2 (s, fs) = (s, fs)
   \<and> (main_loop_pass repr_float env (s, fs) = Inr (Some (s', fs')) \<and> grabbed env = None \<longrightarrow>
        fs' = fs \<and> img_capture_index s' = img_capture_index s
        \<and> active_project s' = active_project s
        \<and> program_start_time s' = program_start_time s
        \<and> last_picture_time s' = last_picture_time s)
   \<and> (main_loop_pass repr_float env (s, fs) = Inr (Some (s', fs')) \<and> grabbed env = None
        \<and> capture_due (t_check env) s \<and> t_check env \<le> t_check env' \<longrightarrow>
        capture_due (t_check env') s')
   \<and> (main_loop_pass repr_float env' (s', fs') = Inr (Some (s'', fs''))
        \<and> capture_due (t_check env') s' \<and> cap s' \<and> grabbed env' = Some fr \<longrightarrow>
        img_capture_index s'' = img_capture_index s' + 1)"
proof -
  have skipped: "capture_image repr_float None t1 t2 (s, fs) = (s, fs)"
    by (rule capture_image_no_frame)
  have unchanged: "main_loop_pass repr_float env (s, fs) = Inr (Some (s', fs')) \<and> grabbed env = None \<longrightarrow>
        fs' = fs \<and> img_capture_index s' = img_capture_index s
        \<and> active_project s' = active_project s
        \<and> program_start_time s' = program_start_time s
        \<and> last_picture_time s' = last_picture_time s"
    using pass_without_frame [of repr_float env s fs s' fs'] by blast
  have due_again: "main_loop_pass repr_float env (s, fs) = Inr (Some (s', fs')) \<and> grabbed env = None
        \<and> capture_due (t_check env) s \<and> t_check env \<le> t_check env' \<longrightarrow>
        capture_due (t_check env') s'"
  proof
    assume a: "main_loop_pass repr_float env (s, fs) = Inr (Some (s', fs')) \<and> grabbed env = None
        \<and> capture_due (t_check env) s \<and> t_check env \<le> t_check env'"
    with unchanged have "last_picture_time s' = last_picture_time s"
      by simp
    with a show "capture_due (t_check env') s'"
      by (simp add: capture_due_def)
  qed
  have retried: "main_loop_pass repr_float env' (s', fs') = Inr (Some (s'', fs''))
        \<and> capture_due (t_check env') s' \<and> cap s' \<and> grabbed env' = Some fr \<longrightarrow>
        img_capture_index s'' = img_capture_index s' + 1"
    using pass_with_frame [of repr_float env' s' fs' s'' fs'' fr] by blast
  from skipped unchanged due_again retried show ?thesis
    by (intro conjI)
qed

section \<open>A successful capture\<close>





lemma write_log_entries [simp]:
  "project_entries (write_log_file repr_float s fs) project = project_entries fs project"
  by (simp add: project_entries_def write_log_file_def)





section \<open>Startup leaves the playback range alone\<close>

lemma read_log_file_max:
  "read_log_file py_float fs s = Inr s' \<Longrightarrow> img_max_index s' = img_max_index s"
  by (auto simp: read_log_file_def split: option.splits prod.splits sum.splits)

lemma get_projects_max:
  "get_projects fs s = Inr (s', fs') \<Longrightarrow> img_max_index s' = img_max_index s"
  by (auto simp: get_projects_def Let_def split: option.splits sum.splits if_splits)

lemma select_from_max:
  "select_from repr_float now ps fs s = Inr (s', fs') \<Longrightarrow> img_max_index s' = img_max_index s"
  by (induction ps) (auto simp: Let_def split: sum.splits if_splits)

lemma setup_project_max:
  assumes "setup_project repr_float py_float now fs s = Inr (s', fs')"
  shows "img_max_index s' = img_max_index s"
proof -
  from assms obtain s1 s2 fs2 s3 where "read_log_file py_float fs s = Inr s1"
    and "get_projects (ensure_projects_folder fs) s1 = Inr (s2, fs2)"
    and "select_project repr_float now fs2 s2 = Inr (s3, fs')"
    and "img_max_index s' = img_max_index s3"
    by (auto simp: setup_project_def Let_def split: sum.splits)
  then show ?thesis
    by (simp add: read_log_file_max get_projects_max select_from_max select_project_def)
qed

lemma initialize_max:
  assumes "initialize repr_float py_float opened now fs s = Inr (s', fs')"
  shows "img_max_index s' = img_max_index s"
proof -
  from assms have "setup_project repr_float py_float now fs (s\<lparr>cap := True\<rparr>) = Inr (s', fs')"
    by (simp add: initialize_def Let_def split: if_splits)
  then show ?thesis
    using setup_project_max by fastforce
qed

section \<open>An undisturbed pass keeps the index at 0\<close>

lemma undisturbed_pass:
  assumes pass: "main_loop_pass repr_float env (s, fs) = Inr (Some (s', fs'))"
    and zero: "img_max_index s = 0" and quiet: "\<not> disturbs env s"
  shows "img_max_index s' = 0 \<and> img_shown_index s' = 0"
proof -
  from pass obtain s1 s2 where key: "handle_key_press s = Inr (s1, True)"
    and capt: "(s2, fs') = (if capture_due (t_check env) s1
                      then capture_image repr_float (grabbed env) (t_stamp env) (t_saved env) (s1, fs)
                      else (s1, fs))"
    and play: "play_movie (pressed env) s2 = Inr s'"
    by (rule pass_parts)
  from quiet have keys: "key s \<noteq> Some 115" "key s \<noteq> Some 97"
    by (simp_all add: disturbs_def)
  from speed_keys_keep_index [OF key keys] zero have zero1: "img_max_index s1 = 0"
    by simp
  from handle_key_press_session [OF key]
  have "capture_due (t_check env) s1 = capture_due (t_check env) s" and "cap s1 = cap s"
    by (simp_all add: capture_due_def)
  with quiet have "\<not> (capture_due (t_check env) s1 \<and> cap s1 \<and> grabbed env \<noteq> None)"
    by (simp add: disturbs_def)
  with capt have "s2 = s1"
    by (auto simp: capture_image_def split: if_splits option.splits)
  with zero1 have zero2: "img_max_index s2 = 0"
    by simp
  from play_movie_invariant [OF play] zero2 show ?thesis
    by (simp add: playback_invariant_def)
qed

lemma undisturbed_run:
  "img_max_index s = 0 \<Longrightarrow> undisturbed repr_float envs (s, fs) \<Longrightarrow>
     sf \<in> set (main_loop_states repr_float envs (s, fs)) \<Longrightarrow>
     img_max_index (fst sf) = 0 \<and> img_shown_index (fst sf) = 0"
proof (induction envs arbitrary: s fs)
  case Nil
  then show ?case by simp
next
  case (Cons env envs)
  show ?case
  proof (cases "main_loop_pass repr_float env (s, fs)")
    case (Inl e)
    with Cons.prems show ?thesis by simp
  next
    case (Inr r)
    show ?thesis
    proof (cases r)
      case None
      with Inr Cons.prems show ?thesis by simp
    next
      case (Some sf')
      obtain s' fs' where sf': "sf' = (s', fs')"
        by (cases sf') auto
      from Cons.prems(2) have quiet: "\<not> disturbs env s"
        by simp
      from Inr Some sf' have pass: "main_loop_pass repr_float env (s, fs) = Inr (Some (s', fs'))"
        by simp
      from undisturbed_pass [OF pass Cons.prems(1) quiet]
      have here: "img_max_index s' = 0 \<and> img_shown_index s' = 0" .
      from Cons.prems(2) pass have rest: "undisturbed repr_float envs (s', fs')"
        by simp
      from Cons.prems(3) pass
      have "sf = (s', fs') \<or> sf \<in> set (main_loop_states repr_float envs (s', fs'))"
        by simp
      then show ?thesis
      proof
        assume "sf = (s', fs')"
        with here show ?thesis by simp
      next
        assume "sf \<in> set (main_loop_states repr_float envs (s', fs'))"
        with Cons.IH [of s' fs'] here rest show ?thesis by simp
      qed
    qed
  qed
qed

text \<open>
  Claim C9. After \<open>initialize\<close> (the camera is opened, then \<open>setup_project\<close>) on a new
  object, \<open>img_max_index\<close> is 0 whatever the files are; and in a run of the main loop
  from there in which no pass consumes a select-project key and no capture succeeds,
  \<open>img_max_index\<close> and \<open>img_shown_index\<close> are 0 after every pass.
\<close>

theorem max_index_zero_after_startup:
  assumes "initialize repr_float py_float opened now fs (init t0) = Inr (s, fs1)"
  shows "img_max_index s = 0
       \<and> (undisturbed repr_float envs (s, fs1) \<longrightarrow>
            (\<forall>sf \<in> set (main_loop_states repr_float envs (s, fs1)).
               img_max_index (fst sf) = 0 \<and> img_shown_index (fst sf) = 0))"
proof -
  from initialize_max [OF assms] have zero: "img_max_index s = 0"
    by (simp add: init_def)
  with undisturbed_run [of s repr_float envs fs1] show ?thesis
    by blast
qed

theorem max_index_zero_after_startup_witness:
  "initialize float_text text_float True 3720 fs_sample (init 3720) = Inr (camera_sample, fs_sample)
   \<and> project_entries fs_sample (active_project camera_sample)
       = Some [(''image_0.jpg'', RegularFile [4, 2, 2]), (''image_1.jpg'', RegularFile [4, 2, 22])]
   \<and> img_max_index camera_sample = 0
   \<and> undisturbed float_text [tick_failed] (camera_sample, fs_sample)
   \<and> main_loop_states float_text [tick_failed] (camera_sample, fs_sample)
       = [(camera_sample\<lparr>img_shown_index := 0, key := Some (- 1)\<rparr>, fs_sample)]
   \<and> img_max_index (camera_sample\<lparr>img_shown_index := 0, key := Some (- 1)\<rparr>) = 0
   \<and> img_shown_index (camera_sample\<lparr>img_shown_index := 0, key := Some (- 1)\<rparr>) = 0"
proof -
  have quiet: "undisturbed float_text [tick_failed] (camera_sample, fs_sample)"
    by (simp add: sample_failed_pass) (simp add: disturbs_def camera_sample_def tick_failed_def)
  have entries: "project_entries fs_sample (active_project camera_sample)
       = Some [(''image_0.jpg'', RegularFile [4, 2, 2]), (''image_1.jpg'', RegularFile [4, 2, 22])]"
    by (simp add: project_entries_def fs_sample_def camera_sample_def folder_A_B1_def)
  from max_index_zero_after_startup [OF sample_start, of "[tick_failed]"] quiet entries
  show ?thesis
    by (simp add: sample_start sample_failed_pass)
qed

section \<open>Witnesses for the playback and capture theorems\<close>

theorem playback_invariant_after_advance_witness:
  "playback_speed camera_sample \<noteq> 0
   \<and> play_movie (- 1) camera_sample = Inr (camera_sample\<lparr>img_shown_index := 0, key := Some (- 1)\<rparr>)
   \<and> main_loop_pass float_text tick_failed (camera_sample, fs_sample)
       = Inr (Some (camera_sample\<lparr>img_shown_index := 0, key := Some (- 1)\<rparr>, fs_sample))
   \<and> playback_invariant (camera_sample\<lparr>img_shown_index := 0, key := Some (- 1)\<rparr>)
   \<and> handle_key_press (camera_sample\<lparr>key := Some 112\<rparr>) = Inr (camera_sample\<lparr>key := Some 112\<rparr>, True)
   \<and> key (camera_sample\<lparr>key := Some 112\<rparr>) \<noteq> Some 115
   \<and> key (camera_sample\<lparr>key := Some 112\<rparr>) \<noteq> Some 97
   \<and> img_shown_index (camera_sample\<lparr>key := Some 112\<rparr>) = img_shown_index camera_sample"
proof -
  have play: "play_movie (- 1) camera_sample
                = Inr (camera_sample\<lparr>img_shown_index := 0, key := Some (- 1)\<rparr>)"
    by (simp add: play_movie_def camera_sample_def)
  have keyp: "handle_key_press (camera_sample\<lparr>key := Some 112\<rparr>)
                = Inr (camera_sample\<lparr>key := Some 112\<rparr>, True)"
    by (simp add: handle_key_press_def camera_sample_def DEFAULT_PLAYBACK_SPEED_def)
  have speed: "playback_speed camera_sample \<noteq> 0"
    by (simp add: camera_sample_def)
  from playback_invariant_after_advance
         [where s = camera_sample and k = "- 1" and repr_float = float_text
            and env = tick_failed and fs = fs_sample and fs' = fs_sample
            and s' = "camera_sample\<lparr>img_shown_index := 0, key := Some (- 1)\<rparr>"]
       playback_invariant_after_advance
         [where s = "camera_sample\<lparr>key := Some 112\<rparr>" and continue = True
            and s' = "camera_sample\<lparr>key := Some 112\<rparr>"]
       play keyp speed sample_failed_pass
  show ?thesis
    by simp
qed

theorem failed_read_skips_capture_witness:
  "main_loop_pass float_text tick_failed (camera_sample, fs_sample)
       = Inr (Some (camera_sample\<lparr>img_shown_index := 0, key := Some (- 1)\<rparr>, fs_sample))
   \<and> grabbed tick_failed = None
   \<and> capture_due (t_check tick_failed) camera_sample
   \<and> t_check tick_failed \<le> t_check tick_frame
   \<and> capture_due (t_check tick_frame) (camera_sample\<lparr>img_shown_index := 0, key := Some (- 1)\<rparr>)
   \<and> cap (camera_sample\<lparr>img_shown_index := 0, key := Some (- 1)\<rparr>)
   \<and> grabbed tick_frame = Some [0, 0, 0]
   \<and> main_loop_pass float_text tick_frame
         (camera_sample\<lparr>img_shown_index := 0, key := Some (- 1)\<rparr>, fs_sample)
       = Inr (Some (camera_sample\<lparr>img_shown_index := 1, key := Some (- 1), last_picture_time := 3726,
            img_max_index := 2, img_capture_index := 3\<rparr>,
          \<lparr>log_txt = Some (''A'' @ [CHR 0x0A] @ ''3'' @ [CHR 0x0A] @ ''1.5''),
           projects_folder = Some
            [(''A'', ProjectDir [(''image_0.jpg'', RegularFile [4, 2, 2]),
                                 (''image_1.jpg'', RegularFile [4, 2, 22]),
                                 (''image_2.jpg'', RegularFile [14, 10, 14])]),
             (''B'', ProjectDir [(''image_0.jpg'', RegularFile [4, 2, 2])])]\<rparr>))
   \<and> img_capture_index (camera_sample\<lparr>img_shown_index := 0, key := Some (- 1)\<rparr>) = 2"
proof -
  have facts: "grabbed tick_failed = None" "capture_due (t_check tick_failed) camera_sample"
    "t_check tick_failed \<le> t_check tick_frame" "grabbed tick_frame = Some [0, 0, 0]"
    "cap (camera_sample\<lparr>img_shown_index := 0, key := Some (- 1)\<rparr>)"
    by (simp_all add: tick_failed_def tick_frame_def camera_sample_def capture_due_def
        CAPTURE_INTERVAL_def)
  from failed_read_skips_capture
         [where repr_float = float_text and env = tick_failed and s = camera_sample
            and fs = fs_sample and fs' = fs_sample and env' = tick_frame
            and s' = "camera_sample\<lparr>img_shown_index := 0, key := Some (- 1)\<rparr>"
            and fr = "[0, 0, 0]"
            and s'' = "camera_sample\<lparr>img_shown_index := 1, key := Some (- 1),
                  last_picture_time := 3726, img_max_index := 2, img_capture_index := 3\<rparr>"]
       facts sample_failed_pass sample_frame_pass
  show ?thesis
    by (simp add: camera_sample_def)
qed


section \<open>Selecting the active project\<close>

lemma select_from_none_empty:
  "(\<And>q. q \<in> set ps \<Longrightarrow> is_directory_empty fs q = Inr False) \<Longrightarrow>
     select_from repr_float now ps fs s = select_from repr_float now [] fs s"
  by (induction ps) simp_all

lemma select_from_first_empty:
  "(\<And>q. q \<in> set before \<Longrightarrow> is_directory_empty fs q = Inr False) \<Longrightarrow>
   is_directory_empty fs p = Inr True \<Longrightarrow>
     select_from repr_float now (before @ p # after) fs s =
       Inr (s\<lparr>active_project := p, program_start_time := now, img_capture_index := 0\<rparr>,
            write_log_file repr_float
              (s\<lparr>active_project := p, program_start_time := now, img_capture_index := 0\<rparr>) fs)"
  by (induction before) (simp_all add: Let_def)

text \<open>
  Claim C2 as stated has the fallback to the default project reset the session. When
  \<open>setup_project\<close> has read the record of a project \<open>gone\<close> that is not in the catalog
  and no project is empty, the default project becomes active, but the capture index
  stays 2 and the start time stays 1.5.
\<close>

theorem select_project_counterexample:
  "select_project float_text 3720 fs_sample
       (camera_sample\<lparr>active_project := ''gone'', selected_project := []\<rparr>)
     = Inr (camera_sample\<lparr>active_project := ''default'', selected_project := []\<rparr>,
            fs_sample\<lparr>log_txt := Some (''default'' @ [CHR 0x0A] @ ''2'' @ [CHR 0x0A] @ ''1.5'')\<rparr>)
   \<and> img_capture_index (camera_sample\<lparr>active_project := ''default'', selected_project := []\<rparr>)
       \<noteq> 0
   \<and> program_start_time (camera_sample\<lparr>active_project := ''default'', selected_project := []\<rparr>)
       \<noteq> 3720"
  by (simp add: sample_defs eval_defs)

text \<open>
  Claim C2, as amended. \<open>select_project\<close> scans the project list in order. The first
  project whose directory is empty becomes the active project, the capture index becomes
  0, the session start time becomes the current time, and the record is written at once.
  If no project is empty and the active project is in the list, object and files stay as
  they are. Otherwise the default project name becomes the active project and the record
  is written at once, with the capture index and the session start time as they were.
\<close>

theorem select_project_policy:
  "(projects s = before @ p # after
      \<and> (\<forall>q \<in> set before. is_directory_empty fs q = Inr False)
      \<and> is_directory_empty fs p = Inr True \<longrightarrow>
    select_project repr_float now fs s =
      Inr (s\<lparr>active_project := p, program_start_time := now, img_capture_index := 0\<rparr>,
           write_log_file repr_float
             (s\<lparr>active_project := p, program_start_time := now, img_capture_index := 0\<rparr>) fs))
   \<and> ((\<forall>q \<in> set (projects s). is_directory_empty fs q = Inr False)
      \<and> active_project s \<in> set (projects s) \<longrightarrow>
    select_project repr_float now fs s = Inr (s, fs))
   \<and> ((\<forall>q \<in> set (projects s). is_directory_empty fs q = Inr False)
      \<and> active_project s \<notin> set (projects s) \<longrightarrow>
    select_project repr_float now fs s =
      Inr (s\<lparr>active_project := DEFAULT_PROJECT\<rparr>,
           write_log_file repr_float (s\<lparr>active_project := DEFAULT_PROJECT\<rparr>) fs))"
proof -
  have first: "projects s = before @ p # after
      \<and> (\<forall>q \<in> set before. is_directory_empty fs q = Inr False)
      \<and> is_directory_empty fs p = Inr True \<longrightarrow>
    select_project repr_float now fs s =
      Inr (s\<lparr>active_project := p, program_start_time := now, img_capture_index := 0\<rparr>,
           write_log_file repr_float
             (s\<lparr>active_project := p, program_start_time := now, img_capture_index := 0\<rparr>) fs)"
    by (simp add: select_project_def select_from_first_empty)
  have none: "(\<forall>q \<in> set (projects s). is_directory_empty fs q = Inr False) \<longrightarrow>
      select_project repr_float now fs s = select_from repr_float now [] fs s"
    by (simp add: select_project_def select_from_none_empty)
  from first none show ?thesis
    by (simp add: Let_def)
qed

theorem select_project_policy_witness:
  "projects camera_sample = [''A''] @ ''B'' # []
   \<and> is_directory_empty (fs_sample\<lparr>projects_folder := Some folder_A_B0\<rparr>) ''A'' = Inr False
   \<and> is_directory_empty (fs_sample\<lparr>projects_folder := Some folder_A_B0\<rparr>) ''B'' = Inr True
   \<and> select_project float_text 0 (fs_sample\<lparr>projects_folder := Some folder_A_B0\<rparr>) camera_sample
       = Inr (camera_sample\<lparr>active_project := ''B'', program_start_time := 0, img_capture_index := 0\<rparr>,
              \<lparr>log_txt = Some (''B'' @ [CHR 0x0A] @ ''0'' @ [CHR 0x0A] @ ''0.0''),
               projects_folder = Some folder_A_B0\<rparr>)
   \<and> is_directory_empty fs_sample ''A'' = Inr False
   \<and> is_directory_empty fs_sample ''B'' = Inr False
   \<and> active_project camera_sample \<in> set (projects camera_sample)
   \<and> select_project float_text 0 fs_sample camera_sample = Inr (camera_sample, fs_sample)
   \<and> active_project (camera_sample\<lparr>active_project := ''gone''\<rparr>)
       \<notin> set (projects (camera_sample\<lparr>active_project := ''gone''\<rparr>))
   \<and> select_project float_text 0 fs_sample (camera_sample\<lparr>active_project := ''gone''\<rparr>)
       = Inr (camera_sample\<lparr>active_project := ''default''\<rparr>,
              fs_sample\<lparr>log_txt := Some (''default'' @ [CHR 0x0A] @ ''2'' @ [CHR 0x0A] @ ''1.5'')\<rparr>)"
proof -
  have dirs: "is_directory_empty (fs_sample\<lparr>projects_folder := Some folder_A_B0\<rparr>) ''A'' = Inr False"
    "is_directory_empty (fs_sample\<lparr>projects_folder := Some folder_A_B0\<rparr>) ''B'' = Inr True"
    "is_directory_empty fs_sample ''A'' = Inr False"
    "is_directory_empty fs_sample ''B'' = Inr False"
    by (simp_all add: is_directory_empty_def fs_sample_def folder_A_B0_def folder_A_B1_def)
  have lists: "projects camera_sample = [''A''] @ ''B'' # []"
    "projects (camera_sample\<lparr>active_project := ''gone''\<rparr>) = [''A'', ''B'']"
    "active_project camera_sample = ''A''"
    "active_project (camera_sample\<lparr>active_project := ''gone''\<rparr>) = ''gone''"
    by (simp_all add: camera_sample_def)
  from select_project_policy
         [where s = camera_sample and before = "[''A'']" and p = "''B''" and after = "[]"
            and fs = "fs_sample\<lparr>projects_folder := Some folder_A_B0\<rparr>"
            and repr_float = float_text and now = 0]
       select_project_policy
         [where s = camera_sample and fs = fs_sample and repr_float = float_text and now = 0]
       select_project_policy
         [where s = "camera_sample\<lparr>active_project := ''gone''\<rparr>" and fs = fs_sample
            and repr_float = float_text and now = 0]
       dirs lists
  show ?thesis
    by (simp add: write_log_file_def log_text_def py_str_def str_nat.simps digit_char_def
        float_text_def DEFAULT_PROJECT_def camera_sample_def fs_sample_def)
qed

section \<open>Reading the session record\<close>

lemma parse_digits_error: "parse_digits acc ds = Inl e \<Longrightarrow> e = ValueError"
  by (induction acc ds rule: parse_digits.induct) (auto split: if_splits)

lemma py_int_error: "py_int s = Inl e \<Longrightarrow> e = ValueError"
  by (auto simp: py_int_def parse_unsigned_def split: list.splits if_splits sum.splits
      dest: parse_digits_error)

lemma read_log_file_missing: "log_txt fs = None \<Longrightarrow> read_log_file py_float fs s = Inr s"
  by (simp add: read_log_file_def)

lemma read_log_file_malformed:
  assumes "log_txt fs = Some content"
    and "readline (universal_newlines content) = (line1, rest1)"
    and "readline rest1 = (line2, rest2)"
    and "readline rest2 = (line3, rest3)"
    and "py_int (strip line2) = Inl ValueError \<or> py_float (strip line3) = None"
  shows "read_log_file py_float fs s = Inl ValueError"
  using assms py_int_error [of "strip line2"]
  by (auto simp: read_log_file_def split: sum.splits)

lemma universal_newlines_plain: "CHR 0x0D \<notin> set s \<Longrightarrow> universal_newlines s = s"
  by (induction s rule: universal_newlines.induct) auto

lemma readline_last: "CHR 0x0A \<notin> set a \<Longrightarrow> readline a = (a, [])"
  by (induction a) auto


lemma py_int_empty: "py_int (strip []) = Inl ValueError"
  by (simp add: py_int_def strip_def)

text \<open>
  Claim C4 as stated has \<open>read_log_file\<close> leave the active project \<open>default\<close> when the
  record is missing, and return the defaults on a malformed record. On a new object the
  active project is the empty string, and a record whose index field is \<open>two\<close> raises
  ValueError.
\<close>

theorem read_log_file_counterexample:
  "read_log_file text_float \<lparr>log_txt = None, projects_folder = None\<rparr> (init 0) = Inr (init 0)
   \<and> active_project (init 0) \<noteq> ''default''
   \<and> read_log_file text_float
        \<lparr>log_txt = Some (''A'' @ [CHR 0x0A] @ ''two'' @ [CHR 0x0A] @ ''1.5''), projects_folder = None\<rparr>
        (init 0) = Inl ValueError"
  by (simp add: read_log_file_def init_def strip_def is_space_def py_int_def parse_unsigned_def
      is_digit_def)

text \<open>
  Claim C4, as amended. On a missing session record \<open>read_log_file\<close> does not raise and
  leaves the object as \<open>__init__\<close> made it: the active project is the empty string, the
  capture index is 0 and the session start time is the time of construction. On a record
  whose index field is not an integer or whose time field is not a number (so also on a
  record of a single line) it raises ValueError, and so does \<open>setup_project\<close>.
\<close>

theorem read_log_file_outcomes:
  "(log_txt fs = None \<longrightarrow>
      read_log_file py_float fs (init t0) = Inr (init t0)
      \<and> active_project (init t0) = [] \<and> img_capture_index (init t0) = 0
      \<and> program_start_time (init t0) = t0)
   \<and> (log_txt fs = Some content
        \<and> readline (universal_newlines content) = (line1, rest1)
        \<and> readline rest1 = (line2, rest2)
        \<and> readline rest2 = (line3, rest3)
        \<and> (py_int (strip line2) = Inl ValueError \<or> py_float (strip line3) = None) \<longrightarrow>
      read_log_file py_float fs s = Inl ValueError
      \<and> setup_project repr_float py_float now fs s = Inl ValueError)
   \<and> (log_txt fs = Some content \<and> CHR 0x0A \<notin> set content \<and> CHR 0x0D \<notin> set content \<longrightarrow>
      read_log_file py_float fs s = Inl ValueError)"
proof -
  have missing: "log_txt fs = None \<longrightarrow>
      read_log_file py_float fs (init t0) = Inr (init t0)
      \<and> active_project (init t0) = [] \<and> img_capture_index (init t0) = 0
      \<and> program_start_time (init t0) = t0"
    by (simp add: read_log_file_missing) (simp add: init_def)
  have malformed: "log_txt fs = Some content
        \<and> readline (universal_newlines content) = (line1, rest1)
        \<and> readline rest1 = (line2, rest2)
        \<and> readline rest2 = (line3, rest3)
        \<and> (py_int (strip line2) = Inl ValueError \<or> py_float (strip line3) = None) \<longrightarrow>
      read_log_file py_float fs s = Inl ValueError
      \<and> setup_project repr_float py_float now fs s = Inl ValueError"
  proof
    assume a: "log_txt fs = Some content
        \<and> readline (universal_newlines content) = (line1, rest1)
        \<and> readline rest1 = (line2, rest2)
        \<and> readline rest2 = (line3, rest3)
        \<and> (py_int (strip line2) = Inl ValueError \<or> py_float (strip line3) = None)"
    then have "read_log_file py_float fs s = Inl ValueError"
      using read_log_file_malformed [of fs content line1 rest1 line2 rest2 line3 rest3 py_float s]
      by blast
    then show "read_log_file py_float fs s = Inl ValueError
      \<and> setup_project repr_float py_float now fs s = Inl ValueError"
      by (simp add: setup_project_def)
  qed
  have one_line: "log_txt fs = Some content \<and> CHR 0x0A \<notin> set content \<and> CHR 0x0D \<notin> set content \<longrightarrow>
      read_log_file py_float fs s = Inl ValueError"
  proof
    assume a: "log_txt fs = Some content \<and> CHR 0x0A \<notin> set content \<and> CHR 0x0D \<notin> set content"
    then have "readline (universal_newlines content) = (content, [])"
      by (simp add: universal_newlines_plain readline_last)
    with a show "read_log_file py_float fs s = Inl ValueError"
      using read_log_file_malformed [of fs content content "[]" "[]" "[]" "[]" "[]" py_float s]
        py_int_empty
      by simp
  qed
  from missing malformed one_line show ?thesis
    by (intro conjI)
qed

theorem read_log_file_outcomes_witness:
  "log_txt \<lparr>log_txt = None, projects_folder = None\<rparr> = None
   \<and> read_log_file text_float \<lparr>log_txt = None, projects_folder = None\<rparr> (init 0) = Inr (init 0)
   \<and> active_project (init 0) = []
   \<and> readline (universal_newlines (''A'' @ [CHR 0x0A] @ ''2'' @ [CHR 0x0A] @ ''soon''))
       = (''A'' @ [CHR 0x0A], ''2'' @ [CHR 0x0A] @ ''soon'')
   \<and> readline (''2'' @ [CHR 0x0A] @ ''soon'') = (''2'' @ [CHR 0x0A], ''soon'')
   \<and> readline ''soon'' = (''soon'', [])
   \<and> text_float (strip ''soon'') = None
   \<and> read_log_file text_float
        \<lparr>log_txt = Some (''A'' @ [CHR 0x0A] @ ''2'' @ [CHR 0x0A] @ ''soon''), projects_folder = None\<rparr>
        (init 0) = Inl ValueError
   \<and> setup_project float_text text_float 0
        \<lparr>log_txt = Some (''A'' @ [CHR 0x0A] @ ''2'' @ [CHR 0x0A] @ ''soon''), projects_folder = None\<rparr>
        (init 0) = Inl ValueError
   \<and> CHR 0x0A \<notin> set ''A'' \<and> CHR 0x0D \<notin> set ''A''
   \<and> read_log_file text_float \<lparr>log_txt = Some ''A'', projects_folder = None\<rparr> (init 0)
       = Inl ValueError"
proof -
  have lines: "readline (universal_newlines (''A'' @ [CHR 0x0A] @ ''2'' @ [CHR 0x0A] @ ''soon''))
       = (''A'' @ [CHR 0x0A], ''2'' @ [CHR 0x0A] @ ''soon'')"
    "readline (''2'' @ [CHR 0x0A] @ ''soon'') = (''2'' @ [CHR 0x0A], ''soon'')"
    "readline ''soon'' = (''soon'', [])"
    "text_float (strip ''soon'') = None"
    by (simp_all add: text_float_def strip_def is_space_def)
  from read_log_file_outcomes
         [where fs = "\<lparr>log_txt = None, projects_folder = None\<rparr>" and py_float = text_float
            and ?t0.0 = 0]
       read_log_file_outcomes
         [where fs = "\<lparr>log_txt = Some (''A'' @ [CHR 0x0A] @ ''2'' @ [CHR 0x0A] @ ''soon''),
                       projects_folder = None\<rparr>"
            and content = "''A'' @ [CHR 0x0A] @ ''2'' @ [CHR 0x0A] @ ''soon''"
            and ?line1.0 = "''A'' @ [CHR 0x0A]" and ?rest1.0 = "''2'' @ [CHR 0x0A] @ ''soon''"
            and ?line2.0 = "''2'' @ [CHR 0x0A]" and ?rest2.0 = "''soon''"
            and ?line3.0 = "''soon''" and ?rest3.0 = "[]"
            and py_float = text_float and repr_float = float_text and now = 0 and s = "init 0"]
       read_log_file_outcomes
         [where fs = "\<lparr>log_txt = Some ''A'', projects_folder = None\<rparr>" and content = "''A''"
            and py_float = text_float and s = "init 0"]
       lines
  show ?thesis
    by simp
qed

section \<open>Writing the session record and reading it back\<close>



















end
